theory Spec2Isabelle
  imports
    Main
    "HOL-Library.Multiset"
    "HOL-Library.DAList"
    "HOL-Library.Char_ord"
    "HOL-Library.List_Lexorder"
begin

unbundle bit_operations_syntax

section \<open>Go values shared by every component\<close>

text \<open>
  A Go \<^verbatim>\<open>string\<close> and a \<^verbatim>\<open>[]byte\<close> are both byte sequences; a \<^typ>\<open>char\<close> is one byte.
  A call that Go lets panic returns \<open>Panic\<close>, so that "returns" is a statement of its own.
\<close>

type_synonym bytes = "char list"

datatype 'a outcome = Returned 'a | Panic string

text \<open>Go's \<^verbatim>\<open>error\<close> results of the cache packages; \<open>None\<close> is \<^verbatim>\<open>nil\<close>.\<close>

datatype error =
    ReadFailed
  | GzipLevelInvalid
  | GzipHeaderInvalid
  | DecompressFailed
  | StoreFailed
  | ErrBodyNotAllowed
  | ErrContentLength

text \<open>\<^verbatim>\<open>int64\<close> arithmetic wraps around.\<close>

definition wrap64 :: "int \<Rightarrow> int" where
  "wrap64 x = (x + 9223372036854775808) mod 18446744073709551616 - 9223372036854775808"

subsection \<open>Package strings\<close>

fun HasPrefix :: "string \<Rightarrow> string \<Rightarrow> bool" where
  "HasPrefix s [] = True"
| "HasPrefix [] (p # ps) = False"
| "HasPrefix (c # cs) (p # ps) = (c = p \<and> HasPrefix cs ps)"

fun Contains :: "string \<Rightarrow> string \<Rightarrow> bool" where
  "Contains [] sub = (sub = [])"
| "Contains (c # cs) sub = (HasPrefix (c # cs) sub \<or> Contains cs sub)"

definition HasSuffix :: "string \<Rightarrow> string \<Rightarrow> bool" where
  "HasSuffix s suf = HasPrefix (rev s) (rev suf)"

definition TrimSuffix :: "string \<Rightarrow> string \<Rightarrow> string" where
  "TrimSuffix s suf = (if HasSuffix s suf then take (length s - length suf) s else s)"

fun Join :: "string list \<Rightarrow> string \<Rightarrow> string" where
  "Join [] sep = []"
| "Join [x] sep = x"
| "Join (x # y # ys) sep = x @ sep @ Join (y # ys) sep"

text \<open>
  \<^verbatim>\<open>strings.ToLower\<close> on the ASCII letters; bytes outside ASCII are left as they are
  (the case mapping of other runes is not modelled).
\<close>

definition lower_byte :: "char \<Rightarrow> char" where
  "lower_byte c =
     (if CHR ''A'' \<le> c \<and> c \<le> CHR ''Z'' then char_of (of_char c + (32::nat)) else c)"

definition upper_byte :: "char \<Rightarrow> char" where
  "upper_byte c =
     (if CHR ''a'' \<le> c \<and> c \<le> CHR ''z'' then char_of (of_char c - (32::nat)) else c)"

definition ToLower :: "string \<Rightarrow> string" where
  "ToLower s = map lower_byte s"

subsection \<open>Package strconv\<close>

text \<open>The decimal digits of a number that is not negative, and \<^verbatim>\<open>strconv.FormatInt(i, 10)\<close>.\<close>

function decimal :: "int \<Rightarrow> string" where
  "decimal n =
     (if n < 10 then [char_of (48 + n)] else decimal (n div 10) @ [char_of (48 + n mod 10)])"
  by pat_completeness auto
termination
  by (relation "measure nat") auto

declare decimal.simps [simp del]

definition FormatInt :: "int \<Rightarrow> string" where
  "FormatInt i = (if i < 0 then CHR ''-'' # decimal (- i) else decimal i)"

text \<open>
  \<^verbatim>\<open>strconv.ParseInt(s, 10, 64)\<close>: an optional sign, then at least one digit and nothing
  but digits; a value outside \<^verbatim>\<open>int64\<close> is a range error. \<open>None\<close> is the error.
\<close>

definition isDigit :: "char \<Rightarrow> bool" where
  "isDigit c = (CHR ''0'' \<le> c \<and> c \<le> CHR ''9'')"

definition digits_value :: "string \<Rightarrow> int" where
  "digits_value ds = foldl (\<lambda>n c. 10 * n + (of_char c - 48)) 0 ds"

definition ParseInt :: "string \<Rightarrow> int option" where
  "ParseInt s =
     (let neg = (s \<noteq> [] \<and> hd s = CHR ''-'');
          ds = (if s \<noteq> [] \<and> (hd s = CHR ''+'' \<or> hd s = CHR ''-'') then tl s else s);
          un = digits_value ds
      in if ds = [] \<or> \<not> list_all isDigit ds then None
         else if \<not> neg \<and> un \<ge> 9223372036854775808 then None
         else if neg \<and> un > 9223372036854775808 then None
         else Some (if neg then - un else un))"

section \<open>Package net/http: headers and the ResponseWriter\<close>

text \<open>
  \<^verbatim>\<open>http.Header\<close> is a Go map from a header name to its values: a list of entries with
  distinct keys, in the order a \<^verbatim>\<open>range\<close> loop visits them.
\<close>

type_synonym Header = "(string, string list) alist"

definition validHeaderFieldByte :: "char \<Rightarrow> bool" where
  "validHeaderFieldByte c =
     ((CHR ''a'' \<le> c \<and> c \<le> CHR ''z'') \<or> (CHR ''A'' \<le> c \<and> c \<le> CHR ''Z'') \<or>
      (CHR ''0'' \<le> c \<and> c \<le> CHR ''9'') \<or>
      c \<in> set (''!#$%&*+-.^_|~'' @ [CHR 0x27, CHR 0x60]))"

fun canonical_bytes :: "bool \<Rightarrow> string \<Rightarrow> string" where
  "canonical_bytes upper [] = []"
| "canonical_bytes upper (c # cs) =
     (let c' = (if upper then upper_byte c else lower_byte c)
      in c' # canonical_bytes (c' = CHR ''-'') cs)"

text \<open>
  \<^verbatim>\<open>textproto.CanonicalMIMEHeaderKey\<close>: a name with a byte that is no token character is
  returned unchanged; otherwise the first letter and every letter after a dash is upper
  case and the others are lower case.
\<close>

definition CanonicalMIMEHeaderKey :: "string \<Rightarrow> string" where
  "CanonicalMIMEHeaderKey s = (if list_all validHeaderFieldByte s then canonical_bytes True s else s)"

definition Header_Get :: "Header \<Rightarrow> string \<Rightarrow> string" where
  "Header_Get h key =
     (case DAList.lookup h (CanonicalMIMEHeaderKey key) of
        None \<Rightarrow> [] | Some [] \<Rightarrow> [] | Some (v # _) \<Rightarrow> v)"

definition Header_Set :: "string \<Rightarrow> string \<Rightarrow> Header \<Rightarrow> Header" where
  "Header_Set key v h = DAList.update (CanonicalMIMEHeaderKey key) [v] h"

definition Header_Add :: "string \<Rightarrow> string \<Rightarrow> Header \<Rightarrow> Header" where
  "Header_Add key v h =
     DAList.update (CanonicalMIMEHeaderKey key)
       ((case DAList.lookup h (CanonicalMIMEHeaderKey key) of None \<Rightarrow> [] | Some vs \<Rightarrow> vs) @ [v]) h"

definition Header_Del :: "string \<Rightarrow> Header \<Rightarrow> Header" where
  "Header_Del key h = DAList.delete (CanonicalMIMEHeaderKey key) h"

text \<open>
  The client's \<^verbatim>\<open>http.ResponseWriter\<close> is the writer of the net/http server
  (\<^verbatim>\<open>*http.response\<close>), reduced to what its three methods do:

    \<^item> \<open>w_header\<close> is the map \<^verbatim>\<open>Header()\<close> returns, which stays mutable;
    \<^item> the first \<^verbatim>\<open>WriteHeader\<close> with a final status fixes the status, clones the header
      map (\<open>w_snapshot\<close>) and reads the declared \<^verbatim>\<open>Content-Length\<close>; later calls are
      ignored; a code outside 100..999 panics; a 1xx code other than 101 sends an
      informational response at once and leaves the final header open;
    \<^item> the response header is built from the clone: the server sends its entries, adds
      headers of its own (the date, the framing of the body, a content type found by
      sniffing when none is set) and leaves out \<^verbatim>\<open>Content-Length\<close> and \<^verbatim>\<open>Transfer-Encoding\<close>
      for a status without a body and \<^verbatim>\<open>Content-Type\<close> as well for status 304;
    \<^item> \<^verbatim>\<open>Write\<close> sends status 200 first when no header was written yet; it refuses the
      data when the status allows no body and when the declared \<^verbatim>\<open>Content-Length\<close> would
      be exceeded, and it swallows the data of the answer to a \<^verbatim>\<open>HEAD\<close> request;
    \<^item> \<open>w_body\<close> is the body that goes to the client, \<open>w_writes\<close> the data of every call
      of \<^verbatim>\<open>Write\<close>, accepted or not.
\<close>

record ResponseWriter =
  w_reqMethod :: string
  w_header :: Header
  w_wroteHeader :: bool
  w_status :: int
  w_snapshot :: Header
  w_contentLength :: int
  w_written :: int
  w_informational :: "(int \<times> Header) list"
  w_body :: bytes
  w_writes :: "bytes list"

definition bodyAllowedForStatus :: "int \<Rightarrow> bool" where
  "bodyAllowedForStatus status =
     (if 100 \<le> status \<and> status \<le> 199 then False
      else if status = 204 then False
      else if status = 304 then False
      else True)"

text \<open>
  \<^verbatim>\<open>WriteHeader\<close> from the point where the header counts as written: the header map is
  cloned for sending, and a \<^verbatim>\<open>Content-Length\<close> of the map is taken over when it parses as
  a number that is not negative and deleted from the map otherwise.
\<close>

definition finalHeader :: "int \<Rightarrow> ResponseWriter \<Rightarrow> ResponseWriter" where
  "finalHeader code w =
     (let w1 = w\<lparr> w_wroteHeader := True, w_status := code, w_snapshot := w_header w \<rparr>;
          cl = Header_Get (w_header w) ''Content-Length''
      in if cl = [] then w1
         else (case ParseInt cl of
                 None \<Rightarrow> w1\<lparr> w_header := Header_Del ''Content-Length'' (w_header w) \<rparr>
               | Some v \<Rightarrow>
                   if v \<ge> 0 then w1\<lparr> w_contentLength := v \<rparr>
                   else w1\<lparr> w_header := Header_Del ''Content-Length'' (w_header w) \<rparr>))"

definition w_WriteHeader :: "int \<Rightarrow> ResponseWriter \<Rightarrow> ResponseWriter outcome" where
  "w_WriteHeader code w =
     (if w_wroteHeader w then Returned w
      else if code < 100 \<or> code > 999
        then Panic (''invalid WriteHeader code '' @ FormatInt code)
      else if 100 \<le> code \<and> code \<le> 199 \<and> code \<noteq> 101
        then Returned (w\<lparr> w_informational := w_informational w @
               [(code, Header_Del ''Transfer-Encoding'' (Header_Del ''Content-Length'' (w_header w)))] \<rparr>)
      else Returned (finalHeader code w))"

text \<open>
  \<^verbatim>\<open>Write\<close> returns the error, if any; the number of bytes it reports is the length of the
  data without an error and \<open>0\<close> with one. Its implicit \<^verbatim>\<open>WriteHeader(200)\<close> passes the test
  of the code.
\<close>

definition w_Write :: "bytes \<Rightarrow> ResponseWriter \<Rightarrow> ResponseWriter \<times> error option" where
  "w_Write data w =
     (let w1 = (if w_wroteHeader w then w else finalHeader 200 w);
          w2 = w1\<lparr> w_writes := w_writes w1 @ [data] \<rparr>
      in if data = [] then (w2, None)
         else if \<not> bodyAllowedForStatus (w_status w2) then (w2, Some ErrBodyNotAllowed)
         else
           (let w3 = w2\<lparr> w_written := wrap64 (w_written w2 + int (length data)) \<rparr>
            in if w_contentLength w3 \<noteq> - 1 \<and> w_written w3 > w_contentLength w3
                 then (w3, Some ErrContentLength)
               else if w_reqMethod w3 = ''HEAD'' then (w3, None)
               else (w3\<lparr> w_body := w_body w3 @ data \<rparr>, None)))"

text \<open>
  The writer as net/http hands it to the handler of a \<^verbatim>\<open>GET\<close> request: nothing set, nothing
  sent, no length declared.
\<close>

definition fresh_writer :: ResponseWriter where
  "fresh_writer =
     \<lparr> w_reqMethod = ''GET'', w_header = DAList.empty, w_wroteHeader = False, w_status = 0,
       w_snapshot = DAList.empty, w_contentLength = - 1, w_written = 0, w_informational = [],
       w_body = [], w_writes = [] \<rparr>"

section \<open>Package cache: metadata, cacheability rules and the key generator\<close>

subsection \<open>Meta and the clock\<close>

text \<open>
  A \<^verbatim>\<open>time.Time\<close> is its distance from the epoch in nanoseconds; a \<^verbatim>\<open>time.Duration\<close> is
  an \<^verbatim>\<open>int64\<close> of nanoseconds. \<^verbatim>\<open>Meta.Headers\<close> is a Go map, held as the list of its
  entries in the order a \<^verbatim>\<open>range\<close> loop visits them.
\<close>

record Meta =
  ContentType :: string
  Encoding :: string
  Size :: int
  ETag :: string
  TTL :: int
  CachedAt :: int
  StatusCode :: int
  Headers :: "(string \<times> string) list"

definition maxDuration :: int where
  "maxDuration = 9223372036854775807"

definition minDuration :: int where
  "minDuration = - 9223372036854775808"

text \<open>
  \<^verbatim>\<open>time.Since(t)\<close> at the clock reading \<open>now\<close>: \<^verbatim>\<open>Time.Sub\<close> saturates at the largest and
  the smallest duration.
\<close>

definition Since :: "int \<Rightarrow> int \<Rightarrow> int" where
  "Since now t =
     (if now - t > maxDuration then maxDuration
      else if now - t < minDuration then minDuration else now - t)"

text \<open>
  \<^verbatim>\<open>Duration.Seconds\<close> returns \<^verbatim>\<open>float64(sec) + float64(nsec)/1e9\<close> with \<^verbatim>\<open>sec = d / Second\<close>
  and \<^verbatim>\<open>nsec = d % Second\<close>. Both conversions are exact; the quotient and the sum are
  rounded to the nearest \<^verbatim>\<open>float64\<close>, which has 53 significant bits, ties to even. A
  fraction that is not zero is at least \<open>10\<^sup>-\<^sup>9\<close>, which is more than \<open>2\<^sup>-\<^sup>3\<^sup>0\<close>, so every
  \<^verbatim>\<open>float64\<close> met on the way is a whole multiple of \<open>2\<^sup>-\<^sup>8\<^sup>2\<close> and is held as that multiple.
\<close>

function bit_length :: "int \<Rightarrow> nat" where
  "bit_length x = (if x \<le> 0 then 0 else Suc (bit_length (x div 2)))"
  by pat_completeness auto
termination
  by (relation "measure nat") auto

declare bit_length.simps [simp del]

text \<open>
  The quotient \<open>a / b\<close> rounded to 53 significant bits, for a quotient of at least
  \<open>2\<^sup>5\<^sup>2\<close> (or zero): \<open>ulp\<close> is the distance of two neighbours of that size.
\<close>

definition round53 :: "int \<Rightarrow> int \<Rightarrow> int" where
  "round53 a b =
     (let ulp = 2 ^ (bit_length (a div b) - 53);
          q = a div (b * ulp);
          r = a mod (b * ulp)
      in (if 2 * r > b * ulp \<or> (2 * r = b * ulp \<and> odd q) then q + 1 else q) * ulp)"

text \<open>\<^verbatim>\<open>d.Seconds()\<close> for a duration that is not negative, in units of \<open>2\<^sup>-\<^sup>8\<^sup>2\<close>.\<close>

definition Seconds :: "int \<Rightarrow> int" where
  "Seconds d =
     round53 ((d div 1000000000) * 2 ^ 82 + round53 ((d mod 1000000000) * 2 ^ 82) 1000000000) 1"

text \<open>
  \<^verbatim>\<open>int64(d.Seconds())\<close>: the conversion drops the fraction, towards zero. Go's \<^verbatim>\<open>/\<close> and
  \<^verbatim>\<open>%\<close> truncate towards zero and rounding to nearest is symmetric, so the seconds of a
  negative duration are those of its magnitude, negated.
\<close>

definition whole_seconds :: "int \<Rightarrow> int" where
  "whole_seconds d = (if d < 0 then - (Seconds (- d) div 2 ^ 82) else Seconds d div 2 ^ 82)"

definition IsExpired :: "Meta \<Rightarrow> int \<Rightarrow> bool" where
  "IsExpired m now = (if TTL m \<le> 0 then False else Since now (CachedAt m) > TTL m)"

definition Age :: "Meta \<Rightarrow> int \<Rightarrow> int" where
  "Age m now = whole_seconds (Since now (CachedAt m))"

subsection \<open>Requests and the cacheability rules\<close>

text \<open>What the cache reads of an \<^verbatim>\<open>http.Request\<close>; \<open>TLS\<close> is \<^verbatim>\<open>r.TLS != nil\<close>.\<close>

record Request =
  Method :: string
  Host :: string
  Path :: string
  RawQuery :: string
  TLS :: bool
  ReqHeader :: Header

definition IsCacheable :: "Request \<Rightarrow> bool" where
  "IsCacheable r =
     (if Method r \<noteq> ''GET'' \<and> Method r \<noteq> ''HEAD'' then False
      else if Header_Get (ReqHeader r) ''Authorization'' \<noteq> [] then False
      else if Contains (Header_Get (ReqHeader r) ''Cache-Control'') ''no-cache'' \<or>
              Contains (Header_Get (ReqHeader r) ''Cache-Control'') ''no-store'' then False
      else True)"

definition IsResponseCacheable :: "int \<Rightarrow> Header \<Rightarrow> bool" where
  "IsResponseCacheable statusCode headers =
     (if statusCode \<noteq> 200 \<and> statusCode \<noteq> 203 \<and> statusCode \<noteq> 204 \<and>
         statusCode \<noteq> 301 \<and> statusCode \<noteq> 302 then False
      else if Header_Get headers ''Set-Cookie'' \<noteq> [] then False
      else if Contains (Header_Get headers ''Cache-Control'') ''no-store'' \<or>
              Contains (Header_Get headers ''Cache-Control'') ''private'' then False
      else if Header_Get headers ''Pragma'' = ''no-cache'' then False
      else True)"

subsection \<open>Package net/url: query strings\<close>

definition ishex :: "char \<Rightarrow> bool" where
  "ishex c = ((CHR ''0'' \<le> c \<and> c \<le> CHR ''9'') \<or> (CHR ''a'' \<le> c \<and> c \<le> CHR ''f'') \<or>
              (CHR ''A'' \<le> c \<and> c \<le> CHR ''F''))"

definition unhex :: "char \<Rightarrow> nat" where
  "unhex c =
     (if CHR ''0'' \<le> c \<and> c \<le> CHR ''9'' then of_char c - 48
      else if CHR ''a'' \<le> c \<and> c \<le> CHR ''f'' then of_char c - 87
      else if CHR ''A'' \<le> c \<and> c \<le> CHR ''F'' then of_char c - 55
      else 0)"

text \<open>
  \<^verbatim>\<open>url.QueryUnescape\<close>: \<^verbatim>\<open>%\<close> must be followed by two hex digits, \<^verbatim>\<open>+\<close> is a space;
  \<open>None\<close> is the escape error.
\<close>

fun QueryUnescape :: "string \<Rightarrow> string option" where
  "QueryUnescape [] = Some []"
| "QueryUnescape [c] = (if c = CHR ''%'' then None else if c = CHR ''+'' then Some '' '' else Some [c])"
| "QueryUnescape [c, d] =
     (if c = CHR ''%'' then None
      else map_option ((#) (if c = CHR ''+'' then CHR '' '' else c)) (QueryUnescape [d]))"
| "QueryUnescape (c # d # e # rest) =
     (if c = CHR ''%'' then
        (if ishex d \<and> ishex e
         then map_option ((#) (char_of (unhex d * 16 + unhex e))) (QueryUnescape rest)
         else None)
      else map_option ((#) (if c = CHR ''+'' then CHR '' '' else c)) (QueryUnescape (d # e # rest)))"

definition upperhex :: "nat \<Rightarrow> char" where
  "upperhex n = ''0123456789ABCDEF'' ! n"

definition shouldEscape :: "char \<Rightarrow> bool" where
  "shouldEscape c =
     (\<not> ((CHR ''a'' \<le> c \<and> c \<le> CHR ''z'') \<or> (CHR ''A'' \<le> c \<and> c \<le> CHR ''Z'') \<or>
         (CHR ''0'' \<le> c \<and> c \<le> CHR ''9'') \<or> c \<in> set ''-_.~''))"

text \<open>\<^verbatim>\<open>url.QueryEscape\<close>: a space becomes \<^verbatim>\<open>+\<close>, every other byte but the unreserved ones \<^verbatim>\<open>%XX\<close>.\<close>

definition QueryEscape :: "string \<Rightarrow> string" where
  "QueryEscape s =
     concat (map (\<lambda>c. if c = CHR '' '' then ''+''
                       else if shouldEscape c
                         then [CHR ''%'', upperhex (of_char c div 16), upperhex (of_char c mod 16)]
                       else [c]) s)"

text \<open>The pieces of a string between the occurrences of a separator.\<close>

fun fields :: "char \<Rightarrow> string \<Rightarrow> string list" where
  "fields sep [] = [[]]"
| "fields sep (c # cs) =
     (if c = sep then [] # fields sep cs
      else (case fields sep cs of [] \<Rightarrow> [[c]] | f # fs \<Rightarrow> (c # f) # fs))"

text \<open>
  One piece of a query string between two \<^verbatim>\<open>&\<close>, as the loop of \<^verbatim>\<open>url.ParseQuery\<close> treats it:
  a piece that is empty, holds a semicolon or does not unescape is skipped; the key ends
  at the first \<^verbatim>\<open>=\<close>.
\<close>

definition query_pair :: "string \<Rightarrow> (string \<times> string) list" where
  "query_pair piece =
     (if CHR '';'' \<in> set piece \<or> piece = [] then []
      else (case QueryUnescape (takeWhile (\<lambda>c. c \<noteq> CHR ''='') piece) of
              None \<Rightarrow> []
            | Some k \<Rightarrow>
               (case QueryUnescape (drop 1 (dropWhile (\<lambda>c. c \<noteq> CHR ''='') piece)) of
                  None \<Rightarrow> []
                | Some v \<Rightarrow> [(k, v)])))"

text \<open>
  \<^verbatim>\<open>r.URL.Query()\<close>: the key-value pairs of the raw query in their order; the value list of
  a key in \<^verbatim>\<open>url.Values\<close> is \<open>values_of\<close>.
\<close>

definition Query :: "Request \<Rightarrow> (string \<times> string) list" where
  "Query r = concat (map query_pair (fields CHR ''&'' (RawQuery r)))"

definition values_of :: "(string \<times> string) list \<Rightarrow> string \<Rightarrow> string list" where
  "values_of query k = map snd (filter (\<lambda>p. fst p = k) query)"

subsection \<open>Package crypto/sha256 and encoding/hex\<close>

text \<open>
  SHA-256 as FIPS 180-4 defines it, on 32-bit words held as integers with the reduction
  modulo \<open>2\<^sup>3\<^sup>2\<close> written out.
\<close>

definition K256 :: "int list" where
  "K256 =
    [1116352408, 1899447441, 3049323471, 3921009573, 961987163, 1508970993,
     2453635748, 2870763221, 3624381080, 310598401, 607225278, 1426881987,
     1925078388, 2162078206, 2614888103, 3248222580, 3835390401, 4022224774,
     264347078, 604807628, 770255983, 1249150122, 1555081692, 1996064986,
     2554220882, 2821834349, 2952996808, 3210313671, 3336571891, 3584528711,
     113926993, 338241895, 666307205, 773529912, 1294757372, 1396182291,
     1695183700, 1986661051, 2177026350, 2456956037, 2730485921, 2820302411,
     3259730800, 3345764771, 3516065817, 3600352804, 4094571909, 275423344,
     430227734, 506948616, 659060556, 883997877, 958139571, 1322822218,
     1537002063, 1747873779, 1955562222, 2024104815, 2227730452, 2361852424,
     2428436474, 2756734187, 3204031479, 3329325298]"

definition H256 :: "int list" where
  "H256 = [1779033703, 3144134277, 1013904242, 2773480762,
           1359893119, 2600822924, 528734635, 1541459225]"

definition u32 :: "int \<Rightarrow> int" where
  "u32 x = x mod 4294967296"

definition rotr :: "nat \<Rightarrow> int \<Rightarrow> int" where
  "rotr n x = x div 2 ^ n + (x mod 2 ^ n) * 2 ^ (32 - n)"

definition ssig0 :: "int \<Rightarrow> int" where
  "ssig0 x = rotr 7 x XOR rotr 18 x XOR x div 8"

definition ssig1 :: "int \<Rightarrow> int" where
  "ssig1 x = rotr 17 x XOR rotr 19 x XOR x div 1024"

definition bsig0 :: "int \<Rightarrow> int" where
  "bsig0 x = rotr 2 x XOR rotr 13 x XOR rotr 22 x"

definition bsig1 :: "int \<Rightarrow> int" where
  "bsig1 x = rotr 6 x XOR rotr 11 x XOR rotr 25 x"

definition ch :: "int \<Rightarrow> int \<Rightarrow> int \<Rightarrow> int" where
  "ch x y z = (x AND y) XOR ((4294967295 - x) AND z)"

definition maj :: "int \<Rightarrow> int \<Rightarrow> int \<Rightarrow> int" where
  "maj x y z = (x AND y) XOR (x AND z) XOR (y AND z)"

text \<open>The message schedule: \<open>ws\<close> holds the sixteen words before the next one.\<close>

primrec schedule :: "nat \<Rightarrow> int list \<Rightarrow> int list" where
  "schedule 0 ws = []"
| "schedule (Suc n) ws =
     (case ws of
        [] \<Rightarrow> []
      | w # rest \<Rightarrow>
          w # schedule n (rest @ [u32 (ssig1 (ws ! 14) + ws ! 9 + ssig0 (ws ! 1) + w)]))"

fun round256 :: "int \<times> int \<Rightarrow> int list \<Rightarrow> int list" where
  "round256 (k, w) [a, b, c, d, e, f, g, h] =
     (let t1 = u32 (h + bsig1 e + ch e f g + k + w);
          t2 = u32 (bsig0 a + maj a b c)
      in [u32 (t1 + t2), a, b, c, u32 (d + t1), e, f, g])"
| "round256 kw s = s"

definition block256 :: "int list \<Rightarrow> int list \<Rightarrow> int list" where
  "block256 blk hs =
     map2 (\<lambda>x y. u32 (x + y)) hs (fold round256 (zip K256 (schedule 64 blk)) hs)"

fun be32 :: "int list \<Rightarrow> int list" where
  "be32 (a # b # c # d # r) = (((a * 256 + b) * 256 + c) * 256 + d) # be32 r"
| "be32 r = []"

function blocks16 :: "int list \<Rightarrow> int list list" where
  "blocks16 ws = (if length ws < 16 then [] else take 16 ws # blocks16 (drop 16 ws))"
  by pat_completeness auto
termination
  by (relation "measure length") auto

definition be_bytes :: "nat \<Rightarrow> int \<Rightarrow> int list" where
  "be_bytes n x = map (\<lambda>i. (x div 256 ^ i) mod 256) (rev [0..<n])"

definition pad256 :: "int list \<Rightarrow> int list" where
  "pad256 m =
     m @ [128] @ replicate ((119 - length m mod 64) mod 64) 0 @
     be_bytes 8 ((8 * int (length m)) mod 18446744073709551616)"

definition digest256 :: "int list \<Rightarrow> int list" where
  "digest256 m = concat (map (be_bytes 4) (fold block256 (blocks16 (be32 (pad256 m))) H256))"

definition Sum256 :: "bytes \<Rightarrow> bytes" where
  "Sum256 m = map (\<lambda>b. char_of (nat b)) (digest256 (map of_char m))"

definition hexdigit :: "nat \<Rightarrow> char" where
  "hexdigit n = ''0123456789abcdef'' ! n"

definition EncodeToString :: "bytes \<Rightarrow> string" where
  "EncodeToString bs =
     concat (map (\<lambda>b. [hexdigit (of_char b div 16), hexdigit (of_char b mod 16)]) bs)"

subsection \<open>The key generator\<close>

record KeyGenerator =
  IncludeQuery :: bool
  VaryHeaders :: "string list"
  CaseSensitive :: bool

definition NewKeyGenerator :: KeyGenerator where
  "NewKeyGenerator =
     \<lparr> IncludeQuery = True, VaryHeaders = [''Accept-Encoding''], CaseSensitive = False \<rparr>"

text \<open>
  \<^verbatim>\<open>normalizeQuery\<close>: the keys in ascending order, the values of each key in ascending
  order (\<^verbatim>\<open>sort.Strings\<close> compares byte-wise, as the order on \<^typ>\<open>string\<close> does), every
  pair escaped and written \<^verbatim>\<open>k=v\<close>, the pairs joined by \<^verbatim>\<open>&\<close>.
\<close>

definition normalizeQuery :: "(string \<times> string) list \<Rightarrow> string" where
  "normalizeQuery query =
     (if query = [] then []
      else Join (concat (map (\<lambda>k. map (\<lambda>v. QueryEscape k @ ''='' @ QueryEscape v)
                                      (sort (values_of query k)))
                             (sort (remdups (map fst query))))) ''&'')"

text \<open>The parts of the key, in the order \<^verbatim>\<open>GenerateKey\<close> appends them.\<close>

definition keyParts :: "KeyGenerator \<Rightarrow> Request \<Rightarrow> string list" where
  "keyParts kg r =
     [if TLS r then ''https'' else ''http'',
      if \<not> CaseSensitive kg then ToLower (Host r) else Host r,
      if \<not> CaseSensitive kg then ToLower (Path r) else Path r]
     @ (if IncludeQuery kg \<and> RawQuery r \<noteq> [] then [normalizeQuery (Query r)] else [])
     @ concat (map (\<lambda>header. if Header_Get (ReqHeader r) header \<noteq> []
                               then [header @ '':'' @ Header_Get (ReqHeader r) header] else [])
                   (VaryHeaders kg))"

definition GenerateKey :: "KeyGenerator \<Rightarrow> Request \<Rightarrow> string" where
  "GenerateKey kg r = EncodeToString (Sum256 (Join (keyParts kg r) ''|''))"

definition is_lower_hex :: "char \<Rightarrow> bool" where
  "is_lower_hex c = (c \<in> set ''0123456789abcdef'')"

section \<open>Package cache: the filesystem store\<close>

text \<open>
  The store is its root and its shard depth; the state it works on is the list of the
  regular files under the root, in the order \<^verbatim>\<open>filepath.Walk\<close> visits them.
  \<^verbatim>\<open>filepath.Join\<close> drops empty elements and joins the others with a slash (its clean-up
  of dot and double-slash segments is not modelled: roots and keys here have none).
\<close>

record FSStore =
  rootDir :: string
  shardDepth :: int

definition filepath_Join :: "string list \<Rightarrow> string" where
  "filepath_Join elems = Join (filter (\<lambda>e. e \<noteq> []) elems) ''/''"

text \<open>\<^verbatim>\<open>filepath.Base\<close>: the last element of a path, trailing slashes removed first.\<close>

definition Base :: "string \<Rightarrow> string" where
  "Base path =
     (if path = [] then ''.''
      else (let p = rev (dropWhile (\<lambda>c. c = CHR ''/'') (rev path))
            in if p = [] then ''/'' else rev (takeWhile (\<lambda>c. c \<noteq> CHR ''/'') (rev p))))"

text \<open>
  The loop of \<^verbatim>\<open>getShardedPath\<close>: while shards are left and the key has characters left,
  take \<^verbatim>\<open>key[i*2:i*2+2]\<close>, which panics when only one character is left.
\<close>

fun shardParts :: "nat \<Rightarrow> string \<Rightarrow> string list outcome" where
  "shardParts 0 key = Returned []"
| "shardParts (Suc n) [] = Returned []"
| "shardParts (Suc n) [c] = Panic ''slice bounds out of range''"
| "shardParts (Suc n) (a # b # rest) =
     (case shardParts n rest of
        Panic e \<Rightarrow> Panic e
      | Returned parts \<Rightarrow> Returned ([a, b] # parts))"

definition getShardedPath :: "FSStore \<Rightarrow> string \<Rightarrow> string \<Rightarrow> string outcome" where
  "getShardedPath fs key suffix =
     (if shardDepth fs = 0 then Returned (filepath_Join [rootDir fs, key @ suffix])
      else (case shardParts (nat (shardDepth fs)) key of
              Panic e \<Rightarrow> Panic e
            | Returned parts \<Rightarrow>
                Returned (filepath_Join
                  [filepath_Join [rootDir fs, filepath_Join parts], key @ suffix])))"

definition getDataPath :: "FSStore \<Rightarrow> string \<Rightarrow> string outcome" where
  "getDataPath fs key = getShardedPath fs key ''.data''"

definition getMetaPath :: "FSStore \<Rightarrow> string \<Rightarrow> string outcome" where
  "getMetaPath fs key = getShardedPath fs key ''.meta''"

text \<open>\<^verbatim>\<open>Delete\<close> removes the data file and the metadata file of the key, present or not.\<close>

definition FSStore_Delete :: "FSStore \<Rightarrow> string \<Rightarrow> string list \<Rightarrow> string list outcome" where
  "FSStore_Delete fs key files =
     (case getDataPath fs key of
        Panic e \<Rightarrow> Panic e
      | Returned dataPath \<Rightarrow>
          (case getMetaPath fs key of
             Panic e \<Rightarrow> Panic e
           | Returned metaPath \<Rightarrow>
               Returned (filter (\<lambda>f. f \<noteq> dataPath \<and> f \<noteq> metaPath) files)))"

text \<open>
  The function \<^verbatim>\<open>PurgePrefix\<close> hands to \<^verbatim>\<open>filepath.Walk\<close>, at one regular file: a file that
  is gone by the time it is visited reaches the function with an error and is skipped.
\<close>

definition purge_visit :: "FSStore \<Rightarrow> string \<Rightarrow> string \<Rightarrow> string list \<Rightarrow> string list outcome" where
  "purge_visit fs prefix path files =
     (if path \<notin> set files then Returned files
      else if \<not> HasSuffix path ''.data'' then Returned files
      else if Contains path prefix
        then FSStore_Delete fs (Base (TrimSuffix path ''.data'')) files
      else Returned files)"

fun walk :: "(string \<Rightarrow> string list \<Rightarrow> string list outcome) \<Rightarrow> string list \<Rightarrow> string list
               \<Rightarrow> string list outcome" where
  "walk visit [] files = Returned files"
| "walk visit (path # paths) files =
     (case visit path files of
        Panic e \<Rightarrow> Panic e
      | Returned files' \<Rightarrow> walk visit paths files')"

definition FSStore_PurgePrefix :: "FSStore \<Rightarrow> string \<Rightarrow> string list \<Rightarrow> string list outcome" where
  "FSStore_PurgePrefix fs prefix files = walk (purge_visit fs prefix) files files"

text \<open>An entry is in the store when \<^verbatim>\<open>Get\<close> finds its data file.\<close>

definition has_entry :: "FSStore \<Rightarrow> string \<Rightarrow> string list \<Rightarrow> bool" where
  "has_entry fs key files =
     (case getDataPath fs key of Panic e \<Rightarrow> False | Returned dataPath \<Rightarrow> dataPath \<in> set files)"

text \<open>A store with two shard levels that holds the two files of one entry.\<close>

definition sample_store :: FSStore where
  "sample_store = \<lparr> rootDir = ''/var/cache/zoraxy'', shardDepth = 2 \<rparr>"

definition sample_files :: "string list" where
  "sample_files = [''/var/cache/zoraxy/ab/cd/abcd1234567890.data'',
                   ''/var/cache/zoraxy/ab/cd/abcd1234567890.meta'']"

section \<open>Package cachemiddleware: the response recorder\<close>

text \<open>
  \<^verbatim>\<open>responseRecorder\<close> embeds the client's writer, so \<^verbatim>\<open>Header()\<close> of the recorder is the
  client's header map. \<^verbatim>\<open>fetchAndCache\<close> is its only constructor and always allocates the
  buffer, so the \<^verbatim>\<open>nil\<close> test of \<^verbatim>\<open>Write\<close> always succeeds.
\<close>

record responseRecorder =
  rr_ResponseWriter :: ResponseWriter
  rr_statusCode :: int
  rr_headers :: Header
  rr_body :: bytes

definition newRecorder :: "ResponseWriter \<Rightarrow> responseRecorder" where
  "newRecorder w =
     \<lparr> rr_ResponseWriter = w, rr_statusCode = 200, rr_headers = DAList.empty, rr_body = [] \<rparr>"

text \<open>
  \<^verbatim>\<open>WriteHeader\<close> stores the code and copies every entry of the client's header map into
  \<open>rr_headers\<close>; it does not call the client's \<^verbatim>\<open>WriteHeader\<close>.
\<close>

definition rr_WriteHeader :: "int \<Rightarrow> responseRecorder \<Rightarrow> responseRecorder" where
  "rr_WriteHeader statusCode rr =
     rr\<lparr> rr_statusCode := statusCode,
         rr_headers := fold (\<lambda>(k, v) headers. DAList.update k v headers)
                         (DAList.impl_of (w_header (rr_ResponseWriter rr))) (rr_headers rr) \<rparr>"

text \<open>
  \<^verbatim>\<open>Write\<close> appends the data to the buffer and passes it on to the client's writer,
  whose answer it returns.
\<close>

definition rr_Write :: "bytes \<Rightarrow> responseRecorder \<Rightarrow> responseRecorder" where
  "rr_Write data rr =
     rr\<lparr> rr_body := rr_body rr @ data,
         rr_ResponseWriter := fst (w_Write data (rr_ResponseWriter rr)) \<rparr>"

subsection \<open>The upstream handler as the calls it makes on its ResponseWriter\<close>

datatype handler_op =
    HeaderSet string string
  | HeaderAdd string string
  | HeaderDel string
  | CallWriteHeader int
  | CallWrite bytes



text \<open>What a call on \<^verbatim>\<open>Header()\<close> does to the header map.\<close>

fun header_op :: "handler_op \<Rightarrow> Header \<Rightarrow> Header" where
  "header_op (HeaderSet k v) h = Header_Set k v h"
| "header_op (HeaderAdd k v) h = Header_Add k v h"
| "header_op (HeaderDel k) h = Header_Del k h"
| "header_op x h = h"

text \<open>
  The handler writing to the client's writer directly. A panic ends the handler: \<open>serve\<close>
  returns the writer as the handler leaves it and the panic, if any.
\<close>

fun writer_op :: "handler_op \<Rightarrow> ResponseWriter \<Rightarrow> ResponseWriter outcome" where
  "writer_op (CallWriteHeader c) w = w_WriteHeader c w"
| "writer_op (CallWrite d) w = Returned (fst (w_Write d w))"
| "writer_op x w = Returned (w\<lparr> w_header := header_op x (w_header w) \<rparr>)"

fun serve :: "handler_op list \<Rightarrow> ResponseWriter \<Rightarrow> ResponseWriter \<times> string option" where
  "serve [] w = (w, None)"
| "serve (x # ops) w =
     (case writer_op x w of
        Panic e \<Rightarrow> (w, Some e)
      | Returned w' \<Rightarrow> serve ops w')"

text \<open>
  The handler writing to the recorder: header changes reach the client's header map
  (the embedded \<^verbatim>\<open>Header()\<close>), \<^verbatim>\<open>WriteHeader\<close> and \<^verbatim>\<open>Write\<close> are the recorder's own.
\<close>

fun recorder_op :: "handler_op \<Rightarrow> responseRecorder \<Rightarrow> responseRecorder" where
  "recorder_op (CallWriteHeader c) rr = rr_WriteHeader c rr"
| "recorder_op (CallWrite d) rr = rr_Write d rr"
| "recorder_op x rr =
     rr\<lparr> rr_ResponseWriter :=
           (rr_ResponseWriter rr)\<lparr> w_header := header_op x (w_header (rr_ResponseWriter rr)) \<rparr> \<rparr>"




section \<open>Package optimizer: transforms and the pipeline\<close>

text \<open>
  An \<^verbatim>\<open>io.Reader\<close> is the bytes it has not yielded yet, whether it ends with a read error
  instead of \<^verbatim>\<open>io.EOF\<close>, and whether its dynamic type also implements \<^verbatim>\<open>io.ReadCloser\<close>.
  Reading it to the end (\<^verbatim>\<open>io.Copy\<close>, \<^verbatim>\<open>io.ReadAll\<close>) leaves it with nothing to yield.
\<close>

record Reader =
  unread :: bytes
  failing :: bool
  isReadCloser :: bool

definition bytes_Reader :: "bytes \<Rightarrow> Reader" where
  "bytes_Reader b = \<lparr> unread = b, failing = False, isReadCloser = False \<rparr>"

text \<open>
  \<^verbatim>\<open>io.NopCloser(r)\<close> reads from \<open>r\<close> and has a \<^verbatim>\<open>Close\<close>. The transforms return their
  input as \<^verbatim>\<open>rc\<close> when it is a \<^verbatim>\<open>ReadCloser\<close> already and as \<^verbatim>\<open>io.NopCloser(in)\<close> otherwise:
  in both cases a \<^verbatim>\<open>ReadCloser\<close> that yields what the input has left.
\<close>

definition NopCloser :: "Reader \<Rightarrow> Reader" where
  "NopCloser r = r\<lparr> isReadCloser := True \<rparr>"

definition drained :: "Reader \<Rightarrow> Reader" where
  "drained r = r\<lparr> unread := [] \<rparr>"

definition ReadAll :: "Reader \<Rightarrow> error + bytes" where
  "ReadAll r = (if failing r then Inl ReadFailed else Inr (unread r))"

type_synonym Transform = "Reader \<Rightarrow> Meta \<Rightarrow> error + Reader \<times> Meta"

subsection \<open>Compression\<close>

text \<open>
  The gzip and brotli libraries are parameters: what their writers produce at a level,
  and what their readers make of a stream. \<^verbatim>\<open>gzip.NewWriterLevel\<close> refuses a level below
  \<^verbatim>\<open>HuffmanOnly\<close> (-2) or above \<^verbatim>\<open>BestCompression\<close> (9); the brotli writer takes any level.
\<close>

datatype inflated = BadHeader | Corrupt | Inflated bytes

record Codecs =
  gzip_deflate :: "int \<Rightarrow> bytes \<Rightarrow> bytes"
  gzip_inflate :: "bytes \<Rightarrow> inflated"
  brotli_encode :: "int \<Rightarrow> bytes \<Rightarrow> bytes"
  brotli_decode :: "bytes \<Rightarrow> bytes option"

record CompressConfig =
  Type :: string
  Level :: int
  MinSize :: int

definition DefaultGzipConfig :: CompressConfig where
  "DefaultGzipConfig = \<lparr> Type = ''gzip'', Level = - 1, MinSize = 1024 \<rparr>"

definition DefaultBrotliConfig :: CompressConfig where
  "DefaultBrotliConfig = \<lparr> Type = ''br'', Level = 6, MinSize = 1024 \<rparr>"

text \<open>
  The end of \<^verbatim>\<open>CompressTransform\<close>, after \<^verbatim>\<open>io.Copy(w, &buf)\<close> has moved every byte of
  \<^verbatim>\<open>buf\<close> into the compressor: the compressed bytes are kept only when they are fewer
  than the bytes read; otherwise the source returns \<^verbatim>\<open>io.NopCloser(&buf)\<close>, a reader over
  the buffer that the copy has emptied, with \<^verbatim>\<open>Size\<close> set to the number of bytes read.
\<close>

definition keep_if_smaller :: "Meta \<Rightarrow> int \<Rightarrow> bytes \<Rightarrow> string \<Rightarrow> error + Reader \<times> Meta" where
  "keep_if_smaller meta written compressed encoding =
     (if int (length compressed) \<ge> written
      then Inr (NopCloser (bytes_Reader []), meta\<lparr> Size := written \<rparr>)
      else Inr (NopCloser (bytes_Reader compressed),
                meta\<lparr> Encoding := encoding, Size := int (length compressed) \<rparr>))"

definition CompressTransform :: "Codecs \<Rightarrow> CompressConfig \<Rightarrow> Transform" where
  "CompressTransform lib config input meta =
     (if Encoding meta \<noteq> [] \<and> Encoding meta \<noteq> ''identity'' then Inr (NopCloser input, meta)
      else if failing input then Inl ReadFailed
      else
        (let buf = unread input; written = int (length buf) in
         if written < MinSize config
           then Inr (NopCloser (bytes_Reader buf), meta\<lparr> Size := written \<rparr>)
         else if Type config = ''gzip'' then
           (if Level config < - 2 \<or> Level config > 9 then Inl GzipLevelInvalid
            else keep_if_smaller meta written (gzip_deflate lib (Level config) buf) ''gzip'')
         else if Type config = ''br'' then
           keep_if_smaller meta written (brotli_encode lib (Level config) buf) ''br''
         else Inr (NopCloser (bytes_Reader buf), meta\<lparr> Size := written \<rparr>)))"

text \<open>What the transform compares the input with: the output of the configured writer.\<close>

definition compressed_form :: "Codecs \<Rightarrow> CompressConfig \<Rightarrow> bytes \<Rightarrow> bytes" where
  "compressed_form lib config b =
     (if Type config = ''gzip'' then gzip_deflate lib (Level config) b
      else brotli_encode lib (Level config) b)"

definition GzipTransform :: "Codecs \<Rightarrow> int \<Rightarrow> Transform" where
  "GzipTransform lib level = CompressTransform lib \<lparr> Type = ''gzip'', Level = level, MinSize = 1024 \<rparr>"

definition BrotliTransform :: "Codecs \<Rightarrow> int \<Rightarrow> Transform" where
  "BrotliTransform lib level = CompressTransform lib \<lparr> Type = ''br'', Level = level, MinSize = 1024 \<rparr>"

text \<open>
  \<^verbatim>\<open>DecompressTransform\<close>: a stream the gzip reader rejects at its header fails at
  \<^verbatim>\<open>gzip.NewReader\<close>, any other defect and a read error of the input fail at \<^verbatim>\<open>io.Copy\<close>;
  an encoding other than gzip and br is passed through.
\<close>

definition DecompressTransform :: "Codecs \<Rightarrow> Transform" where
  "DecompressTransform lib input meta =
     (if Encoding meta = [] \<or> Encoding meta = ''identity'' then Inr (NopCloser input, meta)
      else if Encoding meta = ''gzip'' then
        (case gzip_inflate lib (unread input) of
           BadHeader \<Rightarrow> Inl GzipHeaderInvalid
         | Corrupt \<Rightarrow> Inl DecompressFailed
         | Inflated buf \<Rightarrow>
             if failing input then Inl DecompressFailed
             else Inr (NopCloser (bytes_Reader buf),
                       meta\<lparr> Encoding := [], Size := int (length buf) \<rparr>))
      else if Encoding meta = ''br'' then
        (case brotli_decode lib (unread input) of
           None \<Rightarrow> Inl DecompressFailed
         | Some buf \<Rightarrow>
             if failing input then Inl DecompressFailed
             else Inr (NopCloser (bytes_Reader buf),
                       meta\<lparr> Encoding := [], Size := int (length buf) \<rparr>))
      else Inr (NopCloser input, meta))"

subsection \<open>Minification\<close>

record MinifyConfig =
  HTML :: bool
  CSS :: bool
  JS :: bool
  JSON :: bool
  SVG :: bool
  XML :: bool

definition DefaultMinifyConfig :: MinifyConfig where
  "DefaultMinifyConfig =
     \<lparr> HTML = True, CSS = True, JS = True, JSON = True, SVG = True, XML = False \<rparr>"

text \<open>
  The minifier \<^verbatim>\<open>NewMinifier(config)\<close> builds is a parameter: for a media type and the
  content of the buffer it reads from, it either writes the minified bytes or fails,
  having taken some bytes out of the buffer by then.
\<close>

datatype minified = Minified bytes | MinifyFailed nat

type_synonym Minifier = "string \<Rightarrow> bytes \<Rightarrow> minified"

definition isSpace :: "char \<Rightarrow> bool" where
  "isSpace c = (c \<in> set [CHR '' '', CHR 0x09, CHR 0x0A, CHR 0x0B, CHR 0x0C, CHR 0x0D])"

text \<open>\<^verbatim>\<open>strings.TrimSpace\<close> on ASCII white space.\<close>

definition TrimSpace :: "string \<Rightarrow> string" where
  "TrimSpace s = rev (dropWhile isSpace (rev (dropWhile isSpace s)))"

text \<open>The media type \<^verbatim>\<open>MinifyTransform\<close> reads off the content type: what precedes the first semicolon.\<close>

definition mediaType :: "string \<Rightarrow> string" where
  "mediaType contentType =
     (if CHR '';'' \<in> set contentType
      then TrimSpace (takeWhile (\<lambda>c. c \<noteq> CHR '';'') contentType)
      else contentType)"

definition shouldMinify :: "string \<Rightarrow> MinifyConfig \<Rightarrow> bool" where
  "shouldMinify contentType config =
     (let ct = ToLower contentType in
      if HTML config \<and> (ct = ''text/html'' \<or> HasPrefix ct ''text/html;'') then True
      else if CSS config \<and> (ct = ''text/css'' \<or> HasPrefix ct ''text/css;'') then True
      else if JS config \<and> (ct = ''text/javascript'' \<or> ct = ''application/javascript'' \<or>
                ct = ''application/x-javascript'' \<or> HasPrefix ct ''text/javascript;'' \<or>
                HasPrefix ct ''application/javascript;'' \<or>
                HasPrefix ct ''application/x-javascript;'') then True
      else if JSON config \<and> (ct = ''application/json'' \<or> HasPrefix ct ''application/json;'') then True
      else if SVG config \<and> (ct = ''image/svg+xml'' \<or> HasPrefix ct ''image/svg+xml;'') then True
      else if XML config \<and> (ct = ''application/xml'' \<or> ct = ''text/xml'' \<or>
                HasPrefix ct ''application/xml;'' \<or> HasPrefix ct ''text/xml;'') then True
      else False)"

text \<open>
  \<^verbatim>\<open>MinifyTransform\<close>. When the minifier fails, the source returns \<^verbatim>\<open>in\<close> itself if it is a
  \<^verbatim>\<open>ReadCloser\<close>, after \<^verbatim>\<open>io.Copy\<close> has read it to the end, and \<^verbatim>\<open>io.NopCloser(&buf)\<close>
  otherwise, which yields what the minifier left in the buffer.
\<close>

definition MinifyTransform :: "Minifier \<Rightarrow> MinifyConfig \<Rightarrow> Transform" where
  "MinifyTransform minifier config input meta =
     (if ContentType meta = [] then Inr (NopCloser input, meta)
      else if \<not> shouldMinify (mediaType (ContentType meta)) config
        then Inr (NopCloser input, meta)
      else if failing input then Inl ReadFailed
      else
        (let buf = unread input in
         case minifier (mediaType (ContentType meta)) buf of
           MinifyFailed consumed \<Rightarrow>
             if isReadCloser input then Inr (drained input, meta)
             else Inr (NopCloser (bytes_Reader (drop consumed buf)), meta)
         | Minified out \<Rightarrow>
             Inr (NopCloser (bytes_Reader out), meta\<lparr> Size := int (length out) \<rparr>)))"

subsection \<open>The pipeline\<close>

text \<open>
  \<^verbatim>\<open>Pipeline.Apply\<close> looks at the context before every transform; \<open>ctxDone\<close> says whether the
  context is done by then. Closing the readers between the stages has no effect here.
\<close>

datatype apply_error = Cancelled | TransformFailed error

fun apply_from :: "bool \<Rightarrow> Transform list \<Rightarrow> Reader \<Rightarrow> Meta \<Rightarrow> apply_error + Reader \<times> Meta" where
  "apply_from ctxDone [] currentReader currentMeta = Inr (NopCloser currentReader, currentMeta)"
| "apply_from ctxDone (transform # rest) currentReader currentMeta =
     (if ctxDone then Inl Cancelled
      else (case transform currentReader currentMeta of
              Inl e \<Rightarrow> Inl (TransformFailed e)
            | Inr (nextReader, nextMeta) \<Rightarrow> apply_from ctxDone rest nextReader nextMeta))"

definition Apply :: "bool \<Rightarrow> Transform list \<Rightarrow> Reader \<Rightarrow> Meta \<Rightarrow> apply_error + Reader \<times> Meta" where
  "Apply ctxDone transforms input meta = apply_from ctxDone transforms input meta"

definition ApplyToBytes :: "bool \<Rightarrow> Transform list \<Rightarrow> bytes \<Rightarrow> Meta \<Rightarrow> apply_error + bytes \<times> Meta" where
  "ApplyToBytes ctxDone transforms data meta =
     (case Apply ctxDone transforms (NopCloser (bytes_Reader data)) meta of
        Inl e \<Rightarrow> Inl e
      | Inr (result, resultMeta) \<Rightarrow>
          (case ReadAll result of
             Inl e \<Rightarrow> Inl (TransformFailed e)
           | Inr resultBytes \<Rightarrow> Inr (resultBytes, resultMeta)))"

subsection \<open>Concrete collaborators for the optimizer\<close>

text \<open>
  A small codec that stands for the compression libraries where a statement is evaluated
  at a concrete input: three equal leading bytes are written as a marker and one of
  them, anything else as a zero marker and the bytes themselves.
\<close>

fun squeeze :: "bytes \<Rightarrow> bytes" where
  "squeeze (a # b # c # rest) =
     (if a = b \<and> b = c then CHR 0x01 # a # rest else CHR 0x00 # a # b # c # rest)"
| "squeeze b = CHR 0x00 # b"

fun unsqueeze :: "bytes \<Rightarrow> bytes option" where
  "unsqueeze [] = None"
| "unsqueeze (m # rest) =
     (if m = CHR 0x00 then Some rest
      else if m = CHR 0x01 then (case rest of [] \<Rightarrow> None | a # r \<Rightarrow> Some (a # a # a # r))
      else None)"

definition demo_codecs :: Codecs where
  "demo_codecs =
     \<lparr> gzip_deflate = (\<lambda>level. squeeze),
       gzip_inflate = (\<lambda>s. case unsqueeze s of None \<Rightarrow> BadHeader | Some b \<Rightarrow> Inflated b),
       brotli_encode = (\<lambda>level. squeeze),
       brotli_decode = unsqueeze \<rparr>"

text \<open>The metadata of an HTML entry, and a minifier that rejects every input after reading it.\<close>

definition html_meta :: Meta where
  "html_meta =
     \<lparr> ContentType = ''text/html'', Encoding = [], Size = 0, ETag = [], TTL = 3600000000000,
       CachedAt = 0, StatusCode = 200, Headers = [] \<rparr>"

definition failing_minifier :: Minifier where
  "failing_minifier mt b = MinifyFailed (length b)"

section \<open>Package cachemiddleware: the middleware\<close>

subsection \<open>Configuration and collaborators\<close>

text \<open>
  The store is an interface: the model takes what its \<^verbatim>\<open>Get\<close> and \<^verbatim>\<open>Put\<close> return and
  keeps a log of the calls made. \<^verbatim>\<open>Get\<close> returns an error, not-found, or the reader and
  the metadata of the entry; the middleware tests them in this order. The reader of an
  entry is the sequence of pieces in which \<^verbatim>\<open>io.Copy\<close> takes its content out.
\<close>

record CacheStore =
  Get :: "string \<Rightarrow> error + (bytes list \<times> Meta) option"
  Put :: "string \<Rightarrow> bytes \<Rightarrow> Meta \<Rightarrow> error option"

datatype store_call = GetCall string | PutCall string bytes Meta

fun is_Put :: "store_call \<Rightarrow> bool" where
  "is_Put (PutCall key body meta) = True"
| "is_Put (GetCall key) = False"

text \<open>
  \<^verbatim>\<open>OptimizationJob\<close> carries the key; its store and pipeline are the shared handles of
  the configuration.
\<close>

record OptimizationJob =
  Key :: string

text \<open>
  A compiled pattern of \<^verbatim>\<open>CacheablePaths\<close> is its \<^verbatim>\<open>MatchString\<close>. \<open>ContextDone\<close> says
  whether the request's context is done when the pipeline looks at it. \<open>WorkerQueue\<close>
  is \<open>None\<close> for \<^verbatim>\<open>nil\<close> and otherwise what \<^verbatim>\<open>Enqueue\<close> of the \<^verbatim>\<open>JobQueue\<close> does with a
  job: it returns an error value or panics. \<open>OnCacheEvent\<close> says whether the callback is
  set; the events handed to it are logged. The key generator is never \<^verbatim>\<open>nil\<close>:
  \<^verbatim>\<open>NewMiddleware\<close> puts the default one in its place.
\<close>

record Config =
  Enabled :: bool
  Store :: CacheStore
  KeyGenerator :: KeyGenerator
  CacheablePaths :: "(string \<Rightarrow> bool) list"
  DefaultTTL :: int
  MaxCacheSize :: int
  OptimizationMode :: string
  OptimizationPipeline :: "Transform list option"
  ContextDone :: bool
  WorkerQueue :: "(OptimizationJob \<Rightarrow> error option outcome) option"
  OnCacheEvent :: bool

text \<open>The upstream handler is the calls it makes, for a request, on the writer it is given.\<close>

record Middleware =
  config :: Config
  handler :: "Request \<Rightarrow> handler_op list"

definition NewMiddleware :: "Config \<Rightarrow> (Request \<Rightarrow> handler_op list) \<Rightarrow> Middleware" where
  "NewMiddleware cfg h =
     \<lparr> config = cfg\<lparr> DefaultTTL := (if DefaultTTL cfg \<le> 0 then 3600000000000 else DefaultTTL cfg),
                     MaxCacheSize := (if MaxCacheSize cfg \<le> 0 then 10 * 1024 * 1024
                                      else MaxCacheSize cfg) \<rparr>,
       handler = h \<rparr>"

record Stats =
  Hits :: int
  Misses :: int
  Puts :: int
  Errors :: int
  Bypasses :: int

text \<open>
  What one request can change: the client's writer, the counters, and the logs of the
  calls to the store, of the calls to the upstream handler, of the events and of the
  jobs the queue took. \<open>panicked\<close> is \<open>None\<close> when a request starts; a panic that ends
  \<^verbatim>\<open>ServeHTTP\<close> is put there, and the other fields then show what had been done before
  it.
\<close>

record World =
  client :: ResponseWriter
  stats :: Stats
  store_calls :: "store_call list"
  upstream_calls :: nat
  events :: "(string \<times> string \<times> int) list"
  jobs :: "OptimizationJob list"
  panicked :: "string option"

text \<open>
  The readings of the clock one request takes: by \<^verbatim>\<open>meta.Age()\<close> and by \<^verbatim>\<open>time.Since\<close>
  in \<^verbatim>\<open>serveCachedResponse\<close>, and by \<^verbatim>\<open>time.Now()\<close> in \<^verbatim>\<open>fetchAndCache\<close>.
\<close>

record Clock =
  at_Age :: int
  at_Since :: int
  at_Now :: int

definition incrementHits :: "World \<Rightarrow> World" where
  "incrementHits world = world\<lparr> stats := (stats world)\<lparr> Hits := wrap64 (Hits (stats world) + 1) \<rparr> \<rparr>"

definition incrementMisses :: "World \<Rightarrow> World" where
  "incrementMisses world =
     world\<lparr> stats := (stats world)\<lparr> Misses := wrap64 (Misses (stats world) + 1) \<rparr> \<rparr>"

definition incrementPuts :: "World \<Rightarrow> World" where
  "incrementPuts world = world\<lparr> stats := (stats world)\<lparr> Puts := wrap64 (Puts (stats world) + 1) \<rparr> \<rparr>"

definition incrementErrors :: "World \<Rightarrow> World" where
  "incrementErrors world =
     world\<lparr> stats := (stats world)\<lparr> Errors := wrap64 (Errors (stats world) + 1) \<rparr> \<rparr>"

definition incrementBypasses :: "World \<Rightarrow> World" where
  "incrementBypasses world =
     world\<lparr> stats := (stats world)\<lparr> Bypasses := wrap64 (Bypasses (stats world) + 1) \<rparr> \<rparr>"

definition emit :: "Middleware \<Rightarrow> string \<Rightarrow> string \<Rightarrow> int \<Rightarrow> World \<Rightarrow> World" where
  "emit m hostname eventType n world =
     (if OnCacheEvent (config m) then world\<lparr> events := events world @ [(hostname, eventType, n)] \<rparr>
      else world)"

text \<open>\<^verbatim>\<open>m.handler.ServeHTTP(w, r)\<close> with the client's writer.\<close>

definition delegate :: "Middleware \<Rightarrow> Request \<Rightarrow> World \<Rightarrow> World" where
  "delegate m r world =
     (case serve (handler m r) (client world) of
        (w, panic) \<Rightarrow>
          world\<lparr> client := w, upstream_calls := Suc (upstream_calls world), panicked := panic \<rparr>)"

subsection \<open>Serving a hit\<close>

definition isCacheable :: "Middleware \<Rightarrow> Request \<Rightarrow> bool" where
  "isCacheable m r =
     (if \<not> IsCacheable r then False
      else if CacheablePaths (config m) \<noteq> [] then
        (if \<not> list_ex (\<lambda>pattern. pattern (Path r)) (CacheablePaths (config m)) then False
         else True)
      else True)"

text \<open>
  \<^verbatim>\<open>io.Copy(w, reader)\<close> writes the pieces of the reader one after the other, stops at the
  first write that fails, and returns the number of bytes written. A piece without bytes
  is not written. (This is the loop of \<^verbatim>\<open>io.Copy\<close> over \<^verbatim>\<open>Read\<close> and \<^verbatim>\<open>Write\<close>; a reader or
  a writer with a \<^verbatim>\<open>WriteTo\<close> or \<^verbatim>\<open>ReadFrom\<close> of its own is not told apart.)
\<close>

fun io_Copy :: "bytes list \<Rightarrow> ResponseWriter \<Rightarrow> ResponseWriter \<times> int" where
  "io_Copy [] w = (w, 0)"
| "io_Copy (piece # rest) w =
     (if piece = [] then io_Copy rest w
      else (case w_Write piece w of
              (w', Some err) \<Rightarrow> (w', 0)
            | (w', None) \<Rightarrow>
                (case io_Copy rest w' of (w'', n) \<Rightarrow> (w'', int (length piece) + n))))"

text \<open>\<^verbatim>\<open>meta.TTL - time.Since(meta.CachedAt)\<close>, an \<^verbatim>\<open>int64\<close> subtraction.\<close>

definition remainingTTL :: "Clock \<Rightarrow> Meta \<Rightarrow> int" where
  "remainingTTL clk meta = wrap64 (TTL meta - Since (at_Since clk) (CachedAt meta))"

text \<open>The headers \<^verbatim>\<open>serveCachedResponse\<close> sets, in its order, before it writes the status.\<close>

definition hit_headers :: "Clock \<Rightarrow> Meta \<Rightarrow> Header \<Rightarrow> Header" where
  "hit_headers clk meta h =
     (let h1 = Header_Set ''X-Cache'' ''HIT'' h;
          h2 = Header_Set ''Age'' (FormatInt (Age meta (at_Age clk))) h1;
          h3 = (if ContentType meta \<noteq> [] then Header_Set ''Content-Type'' (ContentType meta) h2
                else h2);
          h4 = (if Encoding meta \<noteq> [] then Header_Set ''Content-Encoding'' (Encoding meta) h3
                else h3);
          h5 = (if ETag meta \<noteq> [] then Header_Set ''ETag'' (ETag meta) h4 else h4);
          h6 = (if remainingTTL clk meta > 0
                then Header_Set ''Cache-Control''
                       (''public, max-age='' @ FormatInt (whole_seconds (remainingTTL clk meta))) h5
                else h5)
      in fold (\<lambda>(k, v) headers. Header_Set k v headers) (Headers meta) h6)"


definition serveCachedResponse ::
    "Middleware \<Rightarrow> Clock \<Rightarrow> Request \<Rightarrow> bytes list \<Rightarrow> Meta \<Rightarrow> World \<Rightarrow> World" where
  "serveCachedResponse m clk r reader meta world =
     (let w = client world;
          w1 = w\<lparr> w_header := hit_headers clk meta (w_header w) \<rparr>
      in case w_WriteHeader (StatusCode meta) w1 of
           Panic e \<Rightarrow> world\<lparr> client := w1, panicked := Some e \<rparr>
         | Returned w2 \<Rightarrow>
             (case io_Copy reader w2 of
                (w3, bytesSent) \<Rightarrow>
                  (let world1 = world\<lparr> client := w3 \<rparr>
                   in if bytesSent > 0 then emit m (Host r) ''traffic'' bytesSent world1
                      else world1)))"

subsection \<open>Serving a miss\<close>

text \<open>The loop of \<^verbatim>\<open>writeRecordedResponse\<close> that adds every recorded value to the client's map.\<close>

definition add_recorded :: "Header \<Rightarrow> Header \<Rightarrow> Header" where
  "add_recorded recorded h =
     fold (\<lambda>(k, values) headers. fold (\<lambda>v. Header_Add k v) values headers)
          (DAList.impl_of recorded) h"

definition writeRecordedResponse :: "Middleware \<Rightarrow> responseRecorder \<Rightarrow> Request \<Rightarrow> World \<Rightarrow> World" where
  "writeRecordedResponse m recorder r world =
     (let w = client world;
          w1 = w\<lparr> w_header := add_recorded (rr_headers recorder) (w_header w) \<rparr>
      in case w_WriteHeader (rr_statusCode recorder) w1 of
           Panic e \<Rightarrow> world\<lparr> client := w1, panicked := Some e \<rparr>
         | Returned w2 \<Rightarrow>
             (let w3 = fst (w_Write (rr_body recorder) w2);
                  world1 = world\<lparr> client := w3 \<rparr>
              in if length (rr_body recorder) > 0
                 then emit m (Host r) ''traffic'' (int (length (rr_body recorder))) world1
                 else world1))"

text \<open>The metadata \<^verbatim>\<open>fetchAndCache\<close> builds from the recorded response.\<close>

definition recorded_meta :: "Middleware \<Rightarrow> Clock \<Rightarrow> responseRecorder \<Rightarrow> Meta" where
  "recorded_meta m clk recorder =
     \<lparr> ContentType = Header_Get (rr_headers recorder) ''Content-Type'',
       Encoding = [],
       Size = 0,
       ETag = Header_Get (rr_headers recorder) ''ETag'',
       TTL = DefaultTTL (config m),
       CachedAt = at_Now clk,
       StatusCode = rr_statusCode recorder,
       Headers = concat (map (\<lambda>header. if Header_Get (rr_headers recorder) header \<noteq> []
                                        then [(header, Header_Get (rr_headers recorder) header)]
                                        else [])
                             [''Last-Modified'', ''Vary'']) \<rparr>"

text \<open>
  The \<^verbatim>\<open>switch\<close> on the optimization mode: the bytes and the metadata to store, and the
  job handed to the queue. The error \<^verbatim>\<open>Enqueue\<close> returns is dropped; its panic is not.
\<close>

definition optimize ::
    "Middleware \<Rightarrow> string \<Rightarrow> bytes \<Rightarrow> Meta \<Rightarrow> World \<Rightarrow> (bytes \<times> Meta \<times> World) outcome" where
  "optimize m key bodyBytes meta world =
     (if OptimizationMode (config m) = ''sync'' then
        (case OptimizationPipeline (config m) of
           None \<Rightarrow> Returned (bodyBytes, meta, world)
         | Some pipeline \<Rightarrow>
             (case ApplyToBytes (ContextDone (config m)) pipeline bodyBytes meta of
                Inl e \<Rightarrow> Returned (bodyBytes, meta, world)
              | Inr (optimized, optimizedMeta) \<Rightarrow> Returned (optimized, optimizedMeta, world)))
      else if OptimizationMode (config m) = ''async'' then
        (case WorkerQueue (config m) of
           None \<Rightarrow> Returned (bodyBytes, meta, world)
         | Some enqueue \<Rightarrow>
             if OptimizationPipeline (config m) = None then Returned (bodyBytes, meta, world)
             else (case enqueue \<lparr> Key = key \<rparr> of
                     Panic e \<Rightarrow> Panic e
                   | Returned err \<Rightarrow>
                       Returned (bodyBytes, meta, world\<lparr> jobs := jobs world @ [\<lparr> Key = key \<rparr>] \<rparr>)))
      else Returned (bodyBytes, meta, world))"


definition fetchAndCache :: "Middleware \<Rightarrow> Clock \<Rightarrow> Request \<Rightarrow> string \<Rightarrow> World \<Rightarrow> World" where
  "fetchAndCache m clk r key world =
     (let recorder = fold recorder_op (handler m r) (newRecorder (client world));
          world1 = world\<lparr> client := rr_ResponseWriter recorder,
                          upstream_calls := Suc (upstream_calls world) \<rparr>
      in if \<not> IsResponseCacheable (rr_statusCode recorder) (rr_headers recorder)
           then writeRecordedResponse m recorder r world1
         else if int (length (rr_body recorder)) > MaxCacheSize (config m)
           then writeRecordedResponse m recorder r world1
         else
           (case optimize m key (rr_body recorder) (recorded_meta m clk recorder) world1 of
              Panic e \<Rightarrow> world1\<lparr> panicked := Some e \<rparr>
            | Returned (bodyBytes, meta, world2) \<Rightarrow>
                (let world3 = world2\<lparr> store_calls := store_calls world2 @ [PutCall key bodyBytes meta] \<rparr>;
                     world4 = (case Put (Store (config m)) key bodyBytes meta of
                                 None \<Rightarrow> emit m (Host r) ''put'' (int (length bodyBytes))
                                           (incrementPuts world3)
                               | Some err \<Rightarrow> world3);
                     world5 = world4\<lparr> client := (client world4)
                                \<lparr> w_header := Header_Set ''X-Cache'' ''MISS'' (w_header (client world4)) \<rparr> \<rparr>
                 in writeRecordedResponse m recorder r world5)))"

subsection \<open>ServeHTTP\<close>

definition ServeHTTP :: "Middleware \<Rightarrow> Clock \<Rightarrow> Request \<Rightarrow> World \<Rightarrow> World" where
  "ServeHTTP m clk r world =
     (if \<not> Enabled (config m) then delegate m r world
      else if \<not> isCacheable m r then delegate m r (incrementBypasses world)
      else
        (let key = GenerateKey (KeyGenerator (config m)) r;
             world1 = world\<lparr> store_calls := store_calls world @ [GetCall key] \<rparr>
         in case Get (Store (config m)) key of
              Inl err \<Rightarrow> delegate m r (incrementErrors world1)
            | Inr (Some (reader, meta)) \<Rightarrow>
                serveCachedResponse m clk r reader meta
                  (emit m (Host r) ''hit'' 0 (incrementHits world1))
            | Inr None \<Rightarrow>
                fetchAndCache m clk r key (emit m (Host r) ''miss'' 0 (incrementMisses world1))))"

subsection \<open>Concrete collaborators for the middleware\<close>

text \<open>
  A store that holds nothing and accepts every \<^verbatim>\<open>Put\<close>, a store that holds one entry under
  every key and yields its body in one piece, an upstream handler that answers five bytes
  of text, and a configuration as \<^verbatim>\<open>NewMiddleware\<close> completes it.
\<close>

definition empty_store :: CacheStore where
  "empty_store = \<lparr> Get = (\<lambda>key. Inr None), Put = (\<lambda>key body meta. None) \<rparr>"


definition hello_handler :: "Request \<Rightarrow> handler_op list" where
  "hello_handler r =
     [HeaderSet ''Content-Type'' ''text/plain'', CallWriteHeader 200, CallWrite ''hello'']"


definition sample_config :: Config where
  "sample_config =
     \<lparr> Enabled = True, Store = empty_store, KeyGenerator = NewKeyGenerator, CacheablePaths = [],
       DefaultTTL = 0, MaxCacheSize = 0, OptimizationMode = ''disabled'',
       OptimizationPipeline = None, ContextDone = False, WorkerQueue = None,
       OnCacheEvent = True \<rparr>"

definition get_request :: Request where
  "get_request =
     \<lparr> Method = ''GET'', Host = ''example.com'', Path = ''/path'', RawQuery = [], TLS = False,
       ReqHeader = DAList.empty \<rparr>"

definition new_world :: World where
  "new_world =
     \<lparr> client = fresh_writer,
       stats = \<lparr> Hits = 0, Misses = 0, Puts = 0, Errors = 0, Bypasses = 0 \<rparr>,
       store_calls = [], upstream_calls = 0, events = [], jobs = [], panicked = None \<rparr>"


definition clock_at :: "int \<Rightarrow> Clock" where
  "clock_at t = \<lparr> at_Age = t, at_Since = t, at_Now = t \<rparr>"

section \<open>Package cacheworker: the bounded job queue\<close>







section \<open>Properties\<close>

subsection \<open>Whole seconds of a duration\<close>







subsection \<open>The key generator\<close>

lemma sort_mset_cong: "mset xs = mset ys \<Longrightarrow> sort xs = sort (ys :: string list)"
  by (rule properties_for_sort) simp_all

lemma values_of_mset:
  "mset query = mset query' \<Longrightarrow> mset (values_of query k) = mset (values_of query' k)"
  by (simp add: values_of_def flip: mset_filter) (metis mset_filter mset_map)

lemma keys_mset:
  assumes "mset query = mset query'"
  shows "sort (remdups (map fst query)) = sort (remdups (map fst query' :: string list))"
proof -
  from assms have "set query = set query'" by (rule mset_eq_setD)
  then have "set (map fst query) = set (map fst query')" by simp
  then show ?thesis by (metis sorted_list_of_set_sort_remdups)
qed

lemma normalizeQuery_mset:
  assumes "mset query = mset query'"
  shows "normalizeQuery query = normalizeQuery query'"
proof -
  from assms have empty: "(query = []) = (query' = [])"
    by (metis mset_zero_iff)
  have vals: "\<And>k. sort (values_of query k) = sort (values_of query' k)"
    by (rule sort_mset_cong) (rule values_of_mset [OF assms])
  show ?thesis
    by (simp add: normalizeQuery_def empty vals keys_mset [OF assms])
qed

lemma keyParts_cong:
  assumes "TLS r1 = TLS r2" and "Host r1 = Host r2" and "Path r1 = Path r2"
    and "(RawQuery r1 = []) = (RawQuery r2 = [])"
    and "mset (Query r1) = mset (Query r2)"
    and "\<forall>h \<in> set (VaryHeaders kg). Header_Get (ReqHeader r1) h = Header_Get (ReqHeader r2) h"
  shows "keyParts kg r1 = keyParts kg r2"
proof -
  from assms(6) have vary:
    "map (\<lambda>header. if Header_Get (ReqHeader r1) header \<noteq> []
                     then [header @ '':'' @ Header_Get (ReqHeader r1) header] else [])
         (VaryHeaders kg)
     = map (\<lambda>header. if Header_Get (ReqHeader r2) header \<noteq> []
                     then [header @ '':'' @ Header_Get (ReqHeader r2) header] else [])
         (VaryHeaders kg)"
    by (intro map_cong) simp_all
  show ?thesis
    unfolding keyParts_def vary
    using assms(1-4) normalizeQuery_mset [OF assms(5)] by simp
qed

lemma length_round256: "length s = 8 \<Longrightarrow> length (round256 kw s) = 8"
proof -
  assume "length s = 8"
  then obtain a b c d e f g h where "s = [a, b, c, d, e, f, g, h]"
    by (auto simp: eval_nat_numeral length_Suc_conv)
  then show ?thesis by (cases kw) (simp add: Let_def)
qed

lemma length_fold_round256: "length s = 8 \<Longrightarrow> length (fold round256 kws s) = 8"
  by (induction kws arbitrary: s) (simp_all add: length_round256)

lemma length_block256: "length hs = 8 \<Longrightarrow> length (block256 blk hs) = 8"
  by (simp add: block256_def length_fold_round256)

lemma length_fold_block256: "length hs = 8 \<Longrightarrow> length (fold block256 blks hs) = 8"
  by (induction blks arbitrary: hs) (simp_all add: length_block256)

lemma length_be_bytes: "length (be_bytes n x) = n"
  by (simp add: be_bytes_def)

lemma length_concat_be_bytes: "length (concat (map (be_bytes 4) ws)) = 4 * length ws"
  by (induction ws) (simp_all add: length_be_bytes)

lemma length_Sum256: "length (Sum256 m) = 32"
  by (simp add: Sum256_def digest256_def length_concat_be_bytes length_fold_block256 H256_def)

lemma length_EncodeToString: "length (EncodeToString bs) = 2 * length bs"
  by (induction bs) (simp_all add: EncodeToString_def)

lemma hexdigit_lower: "n < 16 \<Longrightarrow> is_lower_hex (hexdigit n)"
  unfolding is_lower_hex_def hexdigit_def by (rule nth_mem) simp

lemma of_char_nat_less_256: "of_char (c :: char) < (256 :: nat)"
  by (cases c) simp

lemma EncodeToString_lower_hex: "list_all is_lower_hex (EncodeToString bs)"
proof (induction bs)
  case Nil
  then show ?case by (simp add: EncodeToString_def)
next
  case (Cons b bs)
  have "(of_char b :: nat) < 16 * 16" using of_char_nat_less_256 [of b] by simp
  then have "(of_char b :: nat) div 16 < 16" by (rule less_mult_imp_div_less)
  moreover have "(of_char b :: nat) mod 16 < 16" by simp
  ultimately show ?case using Cons by (simp add: EncodeToString_def hexdigit_lower)
qed

text \<open>
  C1 (amended): two requests that agree on the scheme, the host, the path, on whether the
  raw query string is empty, on the multiset of query key-value pairs and on the value of
  every configured Vary header get the same key from GenerateKey, and the key is 64
  lower-case hexadecimal characters; permuting the query string a=1&b=2 to b=2&a=1 gives
  the same key.
\<close>

theorem GenerateKey_deterministic:
  assumes "TLS r1 = TLS r2" and "Host r1 = Host r2" and "Path r1 = Path r2"
    and "(RawQuery r1 = []) = (RawQuery r2 = [])"
    and "mset (Query r1) = mset (Query r2)"
    and "\<forall>h \<in> set (VaryHeaders kg). Header_Get (ReqHeader r1) h = Header_Get (ReqHeader r2) h"
  shows "GenerateKey kg r1 = GenerateKey kg r2 \<and> length (GenerateKey kg r1) = 64 \<and>
         list_all is_lower_hex (GenerateKey kg r1)"
  using keyParts_cong [OF assms]
  by (simp add: GenerateKey_def length_EncodeToString length_Sum256 EncodeToString_lower_hex)

lemma Query_samples:
  "Query (get_request\<lparr> RawQuery := ''a=1&b=2'' \<rparr>) = [(''a'', ''1''), (''b'', ''2'')]"
  "Query (get_request\<lparr> RawQuery := ''b=2&a=1'' \<rparr>) = [(''b'', ''2''), (''a'', ''1'')]"
  "Query get_request = []"
  "Query (get_request\<lparr> RawQuery := ''&'' \<rparr>) = []"
  by code_simp+

theorem GenerateKey_deterministic_witness:
  "mset (Query (get_request\<lparr> RawQuery := ''a=1&b=2'' \<rparr>))
     = mset (Query (get_request\<lparr> RawQuery := ''b=2&a=1'' \<rparr>)) \<and>
   GenerateKey NewKeyGenerator (get_request\<lparr> RawQuery := ''a=1&b=2'' \<rparr>)
     = GenerateKey NewKeyGenerator (get_request\<lparr> RawQuery := ''b=2&a=1'' \<rparr>) \<and>
   length (GenerateKey NewKeyGenerator (get_request\<lparr> RawQuery := ''a=1&b=2'' \<rparr>)) = 64"
proof -
  have q: "mset (Query (get_request\<lparr> RawQuery := ''a=1&b=2'' \<rparr>))
     = mset (Query (get_request\<lparr> RawQuery := ''b=2&a=1'' \<rparr>))"
    by (simp add: Query_samples)
  have "GenerateKey NewKeyGenerator (get_request\<lparr> RawQuery := ''a=1&b=2'' \<rparr>)
     = GenerateKey NewKeyGenerator (get_request\<lparr> RawQuery := ''b=2&a=1'' \<rparr>) \<and>
   length (GenerateKey NewKeyGenerator (get_request\<lparr> RawQuery := ''a=1&b=2'' \<rparr>)) = 64 \<and>
   list_all is_lower_hex (GenerateKey NewKeyGenerator (get_request\<lparr> RawQuery := ''a=1&b=2'' \<rparr>))"
    by (rule GenerateKey_deterministic [OF _ _ _ _ q]) simp_all
  with q show ?thesis by blast
qed

text \<open>
  C1 (as stated): requests that agree on scheme, host, path, the multiset of query pairs
  and the Vary headers get identical keys. The requests for \<^verbatim>\<open>/path\<close> and \<^verbatim>\<open>/path?&\<close> agree on
  all of these (neither has a query pair), but GenerateKey appends the normalised query,
  here the empty string, whenever the raw query is not empty: the second key is the hash
  of a string with one more separator, and the keys differ.
\<close>

theorem GenerateKey_empty_query_differs:
  "TLS get_request = TLS (get_request\<lparr> RawQuery := ''&'' \<rparr>) \<and>
   Host get_request = Host (get_request\<lparr> RawQuery := ''&'' \<rparr>) \<and>
   Path get_request = Path (get_request\<lparr> RawQuery := ''&'' \<rparr>) \<and>
   mset (Query get_request) = mset (Query (get_request\<lparr> RawQuery := ''&'' \<rparr>)) \<and>
   VaryHeaders NewKeyGenerator = [''Accept-Encoding''] \<and>
   Header_Get (ReqHeader get_request) ''Accept-Encoding''
     = Header_Get (ReqHeader (get_request\<lparr> RawQuery := ''&'' \<rparr>)) ''Accept-Encoding'' \<and>
   GenerateKey NewKeyGenerator get_request
     = ''fdf171b9a30bf367a318e9eda1b8e7895a2ddc215455097c0408b7ab3239716c'' \<and>
   GenerateKey NewKeyGenerator (get_request\<lparr> RawQuery := ''&'' \<rparr>)
     = ''018e8152666fc7de427a557453544de63dd103e1433908357006dd3ead534928''"
proof -
  have k1: "GenerateKey NewKeyGenerator get_request
     = ''fdf171b9a30bf367a318e9eda1b8e7895a2ddc215455097c0408b7ab3239716c''"
    by code_simp
  have k2: "GenerateKey NewKeyGenerator (get_request\<lparr> RawQuery := ''&'' \<rparr>)
     = ''018e8152666fc7de427a557453544de63dd103e1433908357006dd3ead534928''"
    by code_simp
  have vary: "VaryHeaders NewKeyGenerator = [''Accept-Encoding'']"
    by (simp add: NewKeyGenerator_def)
  show ?thesis
    by (simp add: k1 k2 Query_samples vary)
qed

subsection \<open>The filesystem store\<close>

text \<open>
  C9: PurgePrefix should delete an entry exactly when its key contains the prefix. The
  store below is rooted at \<^verbatim>\<open>/var/cache/zoraxy\<close> and holds the entry of the key
  \<^verbatim>\<open>abcd1234567890\<close>, which does not contain \<^verbatim>\<open>cache\<close>; PurgePrefix with the prefix \<^verbatim>\<open>cache\<close>
  tests the path of the data file, which does contain it, and deletes the entry.
\<close>

theorem PurgePrefix_matches_the_path:
  "getDataPath sample_store ''abcd1234567890''
     = Returned ''/var/cache/zoraxy/ab/cd/abcd1234567890.data'' \<and>
   has_entry sample_store ''abcd1234567890'' sample_files \<and>
   \<not> Contains ''abcd1234567890'' ''cache'' \<and>
   FSStore_PurgePrefix sample_store ''cache'' sample_files = Returned [] \<and>
   \<not> has_entry sample_store ''abcd1234567890'' []"
  by code_simp

subsection \<open>The response recorder\<close>










subsection \<open>The compress and decompress transforms\<close>

text \<open>
  C6: the compress transform should emit at most as many bytes as it read, and emit the
  input unmodified when its compressed form is not strictly smaller. The transform fails
  only on a read error or an invalid gzip level, and never emits more bytes than it read;
  it passes a meta through whose Encoding is neither empty nor identity, emits an input
  below the minimum size or under a type other than gzip and br unmodified, and emits a
  strictly smaller compressed form with Encoding set to gzip or br and Size to the
  compressed length. But when the compressed form is not strictly smaller it emits no
  byte at all, with Size set to the length of the input: the buffer it returns has been
  emptied into the compressor.
\<close>

theorem CompressTransform_no_gain_emits_nothing:
  "case CompressTransform lib cfg input meta of
     Inl e \<Rightarrow> failing input \<or> (Type cfg = ''gzip'' \<and> (Level cfg < - 2 \<or> Level cfg > 9))
   | Inr (out, meta') \<Rightarrow>
       length (unread out) \<le> length (unread input) \<and>
       (if Encoding meta \<noteq> [] \<and> Encoding meta \<noteq> ''identity''
        then unread out = unread input \<and> meta' = meta
        else if int (length (unread input)) < MinSize cfg \<or>
                (Type cfg \<noteq> ''gzip'' \<and> Type cfg \<noteq> ''br'')
          then unread out = unread input \<and> meta' = meta\<lparr> Size := int (length (unread input)) \<rparr>
        else if length (unread input) \<le> length (compressed_form lib cfg (unread input))
          then unread out = [] \<and> meta' = meta\<lparr> Size := int (length (unread input)) \<rparr>
          else unread out = compressed_form lib cfg (unread input) \<and>
               length (unread out) < length (unread input) \<and>
               (Encoding meta' = ''gzip'' \<or> Encoding meta' = ''br'') \<and>
               meta' = meta\<lparr> Encoding := Type cfg, Size := int (length (unread out)) \<rparr>)"
  by (auto simp: CompressTransform_def keep_if_smaller_def compressed_form_def NopCloser_def
        bytes_Reader_def Let_def)

theorem CompressTransform_no_gain_emits_nothing_witness:
  "length ''abcd'' \<le> length (compressed_form demo_codecs \<lparr> Type = ''gzip'', Level = - 1, MinSize = 2 \<rparr> ''abcd'') \<and>
   CompressTransform demo_codecs \<lparr> Type = ''gzip'', Level = - 1, MinSize = 2 \<rparr>
      (bytes_Reader ''abcd'') html_meta
     = Inr (NopCloser (bytes_Reader []), html_meta\<lparr> Size := 4 \<rparr>) \<and>
   unread (NopCloser (bytes_Reader [])) = [] \<and>
   ApplyToBytes False [CompressTransform demo_codecs \<lparr> Type = ''gzip'', Level = - 1, MinSize = 2 \<rparr>]
      ''abcd'' html_meta = Inr ([], html_meta\<lparr> Size := 4 \<rparr>)"
proof -
  have form: "compressed_form demo_codecs \<lparr> Type = ''gzip'', Level = - 1, MinSize = 2 \<rparr> ''abcd''
      = CHR 0x00 # ''abcd''"
    by (simp add: compressed_form_def demo_codecs_def)
  have run: "CompressTransform demo_codecs \<lparr> Type = ''gzip'', Level = - 1, MinSize = 2 \<rparr>
      (bytes_Reader ''abcd'') html_meta
     = Inr (NopCloser (bytes_Reader []), html_meta\<lparr> Size := 4 \<rparr>)"
    by (simp add: CompressTransform_def keep_if_smaller_def demo_codecs_def bytes_Reader_def
          html_meta_def)
  from CompressTransform_no_gain_emits_nothing [where lib = demo_codecs
      and cfg = "\<lparr> Type = ''gzip'', Level = - 1, MinSize = 2 \<rparr>"
      and input = "bytes_Reader ''abcd''" and meta = html_meta]
  have out: "unread (NopCloser (bytes_Reader [])) = []"
    unfolding run by (simp add: form bytes_Reader_def html_meta_def)
  have pipeline: "ApplyToBytes False
      [CompressTransform demo_codecs \<lparr> Type = ''gzip'', Level = - 1, MinSize = 2 \<rparr>]
      ''abcd'' html_meta = Inr ([], html_meta\<lparr> Size := 4 \<rparr>)"
    by (simp add: ApplyToBytes_def Apply_def CompressTransform_def keep_if_smaller_def
          demo_codecs_def bytes_Reader_def NopCloser_def ReadAll_def html_meta_def)
  from form run out pipeline show ?thesis by simp
qed

text \<open>
  C7: compressing an input and decompressing the result should yield the input again.
  For a meta with empty Encoding, an input that can be read, a gzip level from -2 to 9 (the
  gzip writer refuses any other) and a library whose reader inverts its writer on the
  input, both transforms succeed and end with Encoding empty and Size equal to the length
  of the input; the bytes are those of the input, except when the input has at least the
  minimum size and its compressed form is not strictly smaller: then the round trip
  yields no byte at all, because the compress transform has already lost the body.
\<close>

theorem Compress_then_Decompress_loses_no_gain_body:
  assumes "Encoding meta = []" and "\<not> failing input"
    and "Type cfg = ''gzip'' \<Longrightarrow> - 2 \<le> Level cfg \<and> Level cfg \<le> 9"
    and "Type cfg = ''gzip'' \<Longrightarrow>
           gzip_inflate lib (gzip_deflate lib (Level cfg) (unread input)) = Inflated (unread input)"
    and "Type cfg = ''br'' \<Longrightarrow>
           brotli_decode lib (brotli_encode lib (Level cfg) (unread input)) = Some (unread input)"
  shows "\<exists>r1 m1 r2 m2.
           CompressTransform lib cfg input meta = Inr (r1, m1) \<and>
           DecompressTransform lib r1 m1 = Inr (r2, m2) \<and>
           ReadAll r2 =
             Inr (if MinSize cfg \<le> int (length (unread input)) \<and>
                     (Type cfg = ''gzip'' \<or> Type cfg = ''br'') \<and>
                     length (unread input) \<le> length (compressed_form lib cfg (unread input))
                  then [] else unread input) \<and>
           Encoding m2 = [] \<and> Size m2 = int (length (unread input))"
proof (cases "int (length (unread input)) < MinSize cfg \<or>
              (Type cfg \<noteq> ''gzip'' \<and> Type cfg \<noteq> ''br'')")
  case True
  with assms have "CompressTransform lib cfg input meta
      = Inr (NopCloser (bytes_Reader (unread input)), meta\<lparr> Size := int (length (unread input)) \<rparr>)"
    by (auto simp: CompressTransform_def Let_def)
  with assms True show ?thesis
    by (auto simp: DecompressTransform_def ReadAll_def NopCloser_def bytes_Reader_def)
next
  case sized: False
  show ?thesis
  proof (cases "length (unread input) \<le> length (compressed_form lib cfg (unread input))")
    case True
    with assms sized have "CompressTransform lib cfg input meta
        = Inr (NopCloser (bytes_Reader []), meta\<lparr> Size := int (length (unread input)) \<rparr>)"
      by (auto simp: CompressTransform_def keep_if_smaller_def compressed_form_def Let_def)
    with assms sized True show ?thesis
      by (auto simp: DecompressTransform_def ReadAll_def NopCloser_def bytes_Reader_def)
  next
    case False
    with assms sized have "CompressTransform lib cfg input meta
        = Inr (NopCloser (bytes_Reader (compressed_form lib cfg (unread input))),
               meta\<lparr> Encoding := Type cfg,
                     Size := int (length (compressed_form lib cfg (unread input))) \<rparr>)"
      by (auto simp: CompressTransform_def keep_if_smaller_def compressed_form_def Let_def)
    with assms sized False show ?thesis
      by (auto simp: DecompressTransform_def ReadAll_def NopCloser_def bytes_Reader_def
            compressed_form_def)
  qed
qed

theorem Compress_then_Decompress_loses_no_gain_body_witness:
  "Encoding html_meta = [] \<and> \<not> failing (bytes_Reader ''abcd'') \<and>
   gzip_inflate demo_codecs (gzip_deflate demo_codecs 9 ''abcd'') = Inflated ''abcd'' \<and>
   (\<exists>r1 m1 r2 m2.
      CompressTransform demo_codecs \<lparr> Type = ''gzip'', Level = 9, MinSize = 2 \<rparr>
         (bytes_Reader ''abcd'') html_meta = Inr (r1, m1) \<and>
      DecompressTransform demo_codecs r1 m1 = Inr (r2, m2) \<and>
      ReadAll r2 = Inr [] \<and> Encoding m2 = [] \<and> Size m2 = 4)"
proof -
  have pre: "Encoding html_meta = []" "\<not> failing (bytes_Reader ''abcd'')"
    "gzip_inflate demo_codecs (gzip_deflate demo_codecs 9 ''abcd'') = Inflated ''abcd''"
    by (simp_all add: html_meta_def bytes_Reader_def demo_codecs_def)
  have form: "compressed_form demo_codecs \<lparr> Type = ''gzip'', Level = 9, MinSize = 2 \<rparr> ''abcd''
      = CHR 0x00 # ''abcd''"
    by (simp add: compressed_form_def demo_codecs_def)
  from Compress_then_Decompress_loses_no_gain_body [where meta = html_meta
      and input = "bytes_Reader ''abcd''"
      and cfg = "\<lparr> Type = ''gzip'', Level = 9, MinSize = 2 \<rparr>" and lib = demo_codecs]
  have "\<exists>r1 m1 r2 m2.
      CompressTransform demo_codecs \<lparr> Type = ''gzip'', Level = 9, MinSize = 2 \<rparr>
         (bytes_Reader ''abcd'') html_meta = Inr (r1, m1) \<and>
      DecompressTransform demo_codecs r1 m1 = Inr (r2, m2) \<and>
      ReadAll r2 = Inr [] \<and> Encoding m2 = [] \<and> Size m2 = 4"
    using pre by (simp add: form bytes_Reader_def)
  with pre show ?thesis by simp
qed

subsection \<open>The minify transform\<close>

text \<open>
  C5: when the minifier fails, the transform should hand back the original bytes. The
  input below is a ReadCloser over the byte \<^verbatim>\<open>{\<close>, as ApplyToBytes passes it, with content
  type application/json and a minifier that fails: the transform returns the input
  reader it has already read to the end, which yields no byte, and ApplyToBytes returns
  an empty body without an error.
\<close>

theorem MinifyTransform_failure_drains_body:
  "MinifyTransform failing_minifier DefaultMinifyConfig (NopCloser (bytes_Reader ''{''))
      (html_meta\<lparr> ContentType := ''application/json'' \<rparr>)
     = Inr (drained (NopCloser (bytes_Reader ''{'')), html_meta\<lparr> ContentType := ''application/json'' \<rparr>) \<and>
   ReadAll (drained (NopCloser (bytes_Reader ''{''))) = Inr [] \<and>
   ApplyToBytes False [MinifyTransform failing_minifier DefaultMinifyConfig] ''{''
      (html_meta\<lparr> ContentType := ''application/json'' \<rparr>)
     = Inr ([], html_meta\<lparr> ContentType := ''application/json'' \<rparr>)"
  by (simp add: MinifyTransform_def DefaultMinifyConfig_def shouldMinify_def mediaType_def
        ToLower_def lower_byte_def failing_minifier_def NopCloser_def bytes_Reader_def drained_def
        ReadAll_def ApplyToBytes_def Apply_def html_meta_def)

subsection \<open>The client's writer\<close>

lemma canonical_names:
  "CanonicalMIMEHeaderKey ''X-Cache'' = ''X-Cache''"
  "CanonicalMIMEHeaderKey ''Age'' = ''Age''"
  "CanonicalMIMEHeaderKey ''Content-Type'' = ''Content-Type''"
  "CanonicalMIMEHeaderKey ''Content-Encoding'' = ''Content-Encoding''"
  "CanonicalMIMEHeaderKey ''Content-Length'' = ''Content-Length''"
  "CanonicalMIMEHeaderKey ''ETag'' = ''Etag''"
  "CanonicalMIMEHeaderKey ''Cache-Control'' = ''Cache-Control''"
  "CanonicalMIMEHeaderKey ''Set-Cookie'' = ''Set-Cookie''"
  "CanonicalMIMEHeaderKey ''Pragma'' = ''Pragma''"
  "CanonicalMIMEHeaderKey ''Last-Modified'' = ''Last-Modified''"
  "CanonicalMIMEHeaderKey ''Vary'' = ''Vary''"
  by code_simp+








subsection \<open>The middleware\<close>

text \<open>
  C2 (as stated): for every request that is not cacheable, ServeHTTP increments the
  bypasses counter. A disabled middleware delegates before it looks at the request: a
  POST request leaves the counter where it was.
\<close>

theorem ServeHTTP_disabled_counts_no_bypass:
  "\<not> IsCacheable (get_request\<lparr> Method := ''POST'' \<rparr>) \<and>
   Bypasses (stats (ServeHTTP (NewMiddleware (sample_config\<lparr> Enabled := False \<rparr>) hello_handler)
      (clock_at 0) (get_request\<lparr> Method := ''POST'' \<rparr>) new_world)) = Bypasses (stats new_world)"
  by (simp add: IsCacheable_def get_request_def ServeHTTP_def NewMiddleware_def sample_config_def
        delegate_def new_world_def split: prod.splits)

text \<open>
  C2 (amended): for every request r with IsCacheable(r) = false, ServeHTTP delegates to
  the upstream handler, once and with the client's own writer, and calls neither Get nor
  Put of the store; it ends as the handler ends, with its panic if it panics; when the
  middleware is enabled it increments the bypasses counter, and when it is disabled it
  leaves the counters unchanged.
\<close>

theorem ServeHTTP_not_cacheable:
  assumes "\<not> IsCacheable r"
  shows "store_calls (ServeHTTP m clk r world) = store_calls world \<and>
         upstream_calls (ServeHTTP m clk r world) = Suc (upstream_calls world) \<and>
         client (ServeHTTP m clk r world) = fst (serve (handler m r) (client world)) \<and>
         panicked (ServeHTTP m clk r world) = snd (serve (handler m r) (client world)) \<and>
         stats (ServeHTTP m clk r world)
           = (if Enabled (config m)
              then (stats world)\<lparr> Bypasses := wrap64 (Bypasses (stats world) + 1) \<rparr>
              else stats world)"
  using assms
  by (simp add: ServeHTTP_def isCacheable_def delegate_def incrementBypasses_def
        split: prod.splits)

lemma serve_hello:
  "w_body (fst (serve (hello_handler r) fresh_writer)) = ''hello''"
  "snd (serve (hello_handler r) fresh_writer) = None"
  by (simp_all add: hello_handler_def fresh_writer_def w_WriteHeader_def w_Write_def
        finalHeader_def Header_Get_def Header_Set_def canonical_names bodyAllowedForStatus_def
        wrap64_def Let_def)

theorem ServeHTTP_not_cacheable_witness:
  "\<not> IsCacheable (get_request\<lparr> Method := ''POST'' \<rparr>) \<and>
   store_calls (ServeHTTP (NewMiddleware sample_config hello_handler) (clock_at 0)
      (get_request\<lparr> Method := ''POST'' \<rparr>) new_world) = [] \<and>
   upstream_calls (ServeHTTP (NewMiddleware sample_config hello_handler) (clock_at 0)
      (get_request\<lparr> Method := ''POST'' \<rparr>) new_world) = 1 \<and>
   w_body (client (ServeHTTP (NewMiddleware sample_config hello_handler) (clock_at 0)
      (get_request\<lparr> Method := ''POST'' \<rparr>) new_world)) = ''hello'' \<and>
   panicked (ServeHTTP (NewMiddleware sample_config hello_handler) (clock_at 0)
      (get_request\<lparr> Method := ''POST'' \<rparr>) new_world) = None \<and>
   Bypasses (stats (ServeHTTP (NewMiddleware sample_config hello_handler) (clock_at 0)
      (get_request\<lparr> Method := ''POST'' \<rparr>) new_world)) = 1"
proof -
  have post: "\<not> IsCacheable (get_request\<lparr> Method := ''POST'' \<rparr>)"
    by (simp add: IsCacheable_def get_request_def)
  from ServeHTTP_not_cacheable [OF post, of "NewMiddleware sample_config hello_handler"
      "clock_at 0" new_world] post
  show ?thesis
    by (simp add: NewMiddleware_def sample_config_def new_world_def wrap64_def serve_hello)
qed

subsection \<open>A miss\<close>





















subsection \<open>A hit\<close>













subsection \<open>The worker's queue\<close>




end
